theory Spec2Isabelle
  imports Complex_Main "HOL-Library.Sublist"
begin

section \<open>JavaScript values used by the route\<close>

text \<open>
  The route handler \<^verbatim>\<open>src/app/api/ai-design-visual/route.ts\<close> is TypeScript that runs as
  JavaScript. Strings are modelled as lists of characters; the model of the case
  conversions and of \<^verbatim>\<open>trim\<close> is exact for ASCII text and leaves every other character
  alone.
\<close>

subsection \<open>Strings\<close>

definition lower_char :: "char \<Rightarrow> char" where
  "lower_char c =
     (case map_of (zip ''ABCDEFGHIJKLMNOPQRSTUVWXYZ'' ''abcdefghijklmnopqrstuvwxyz'') c of
        Some l \<Rightarrow> l
      | None \<Rightarrow> c)"

definition upper_char :: "char \<Rightarrow> char" where
  "upper_char c =
     (case map_of (zip ''abcdefghijklmnopqrstuvwxyz'' ''ABCDEFGHIJKLMNOPQRSTUVWXYZ'') c of
        Some u \<Rightarrow> u
      | None \<Rightarrow> c)"

definition toLowerCase :: "string \<Rightarrow> string" where
  "toLowerCase s = map lower_char s"

definition toUpperCase :: "string \<Rightarrow> string" where
  "toUpperCase s = map upper_char s"

text \<open>\<^verbatim>\<open>hay.includes(needle)\<close>: the needle occurs as a contiguous run of the haystack.\<close>

fun includes_str :: "string \<Rightarrow> string \<Rightarrow> bool" where
  "includes_str [] needle = (needle = [])"
| "includes_str (c # cs) needle = (prefix needle (c # cs) \<or> includes_str cs needle)"

text \<open>\<^verbatim>\<open>text.split("\n")\<close>: never empty; the text without a line feed is its only line.\<close>

fun split_lines :: "string \<Rightarrow> string list" where
  "split_lines [] = [[]]"
| "split_lines (c # cs) =
     (if c = CHR 0x0A then [] # split_lines cs
      else (case split_lines cs of
              [] \<Rightarrow> [[c]]
            | l # ls \<Rightarrow> (c # l) # ls))"

definition is_space :: "char \<Rightarrow> bool" where
  "is_space c = (c \<in> set [CHR 0x20, CHR 0x09, CHR 0x0A, CHR 0x0B, CHR 0x0C, CHR 0x0D])"

definition trim :: "string \<Rightarrow> string" where
  "trim s = rev (dropWhile is_space (rev (dropWhile is_space s)))"

text \<open>\<^verbatim>\<open>items.join(sep)\<close>\<close>

fun join :: "string \<Rightarrow> string list \<Rightarrow> string" where
  "join sep [] = []"
| "join sep [x] = x"
| "join sep (x # y # ys) = x @ sep @ join sep (y # ys)"

text \<open>\<^verbatim>\<open>str.charAt(0).toUpperCase() + str.slice(1)\<close>\<close>

definition capitalizeFirst :: "string \<Rightarrow> string" where
  "capitalizeFirst str = toUpperCase (take 1 str) @ drop 1 str"

subsection \<open>Property access on an object literal\<close>

text \<open>
  The lookup tables of the route are object literals, read with \<^verbatim>\<open>table[key]\<close> where the
  key is a string of the request. JavaScript answers such a read from the object's own
  properties first and from its prototype, \<^verbatim>\<open>Object.prototype\<close>, next; only a key found
  in neither reads as \<^verbatim>\<open>undefined\<close>. The string-keyed properties of \<^verbatim>\<open>Object.prototype\<close>
  are the twelve below; eleven hold functions and \<^verbatim>\<open>__proto__\<close> reads as
  \<^verbatim>\<open>Object.prototype\<close> itself, so each of them is a truthy value that is neither a string
  nor an array, cannot be spread, converts to the number NaN, and has no property named
  \<^verbatim>\<open>min\<close>, \<^verbatim>\<open>max\<close>, \<^verbatim>\<open>primary\<close>, \<^verbatim>\<open>enhanced\<close> or \<^verbatim>\<open>value\<close>.
\<close>

definition Object_prototype_keys :: "string list" where
  "Object_prototype_keys =
     [''constructor'', ''__defineGetter__'', ''__defineSetter__'', ''hasOwnProperty'',
      ''__lookupGetter__'', ''__lookupSetter__'', ''isPrototypeOf'', ''propertyIsEnumerable'',
      ''toString'', ''valueOf'', ''__proto__'', ''toLocaleString'']"

datatype 'a lookup = Own 'a | Inherited string | Missing

definition js_get :: "(string \<times> 'a) list \<Rightarrow> string \<Rightarrow> 'a lookup" where
  "js_get obj key =
     (case map_of obj key of
        Some v \<Rightarrow> Own v
      | None \<Rightarrow> if key \<in> set Object_prototype_keys then Inherited key else Missing)"

text \<open>
  The values the route stores in a design: a string, an array of strings, or one of the
  built-in objects above, named by the key it was read under.
\<close>

datatype jsval = JStr string | JArr "string list" | JBuiltin string

datatype error = TypeError string | Error string | ApiError

subsection \<open>Numbers\<close>

text \<open>
  A number is NaN or finite. The finite numbers of \<^verbatim>\<open>calculateCost\<close> are products of a
  bracket bound and a multiplier; the model computes them as exact real numbers.
  The multipliers 1.0 and 1.25 are exact in binary floating point; 0.85 is not, but every
  bracket bound times 0.85 is an integer and the floating-point product lies within
  \<open>10\<^sup>-\<^sup>9\<close> of it, so \<^verbatim>\<open>Math.round\<close> returns the same integer.
\<close>

datatype jsnum = NaN | Num real

fun num_times :: "jsnum \<Rightarrow> jsnum \<Rightarrow> jsnum" where
  "num_times (Num a) (Num b) = Num (a * b)"
| "num_times _ _ = NaN"

text \<open>\<^verbatim>\<open>Math.round\<close> rounds to the nearest integer, a half towards plus infinity.\<close>

datatype jsint = NaN_int | Whole int

fun Math_round :: "jsnum \<Rightarrow> jsint" where
  "Math_round NaN = NaN_int"
| "Math_round (Num x) = Whole \<lfloor>x + 1 / 2\<rfloor>"

fun to_decimal :: "nat \<Rightarrow> string" where
  "to_decimal n =
     (if n < 10 then [''0123456789'' ! n]
      else to_decimal (n div 10) @ [''0123456789'' ! (n mod 10)])"

declare to_decimal.simps [simp del]

fun group_reversed :: "string \<Rightarrow> string" where
  "group_reversed (a # b # c # d # ds) = a # b # c # CHR '','' # group_reversed (d # ds)"
| "group_reversed ds = ds"

text \<open>
  \<^verbatim>\<open>n.toLocaleString()\<close> of an integer, in the locale \<^verbatim>\<open>en-US\<close> of the deployment: the
  decimal digits in groups of three, separated by commas.
\<close>

fun toLocaleString :: "jsint \<Rightarrow> string" where
  "toLocaleString NaN_int = ''NaN''"
| "toLocaleString (Whole i) =
     (if i < 0 then ''-'' @ rev (group_reversed (rev (to_decimal (nat (- i)))))
      else rev (group_reversed (rev (to_decimal (nat i)))))"

section \<open>CostEstimator\<close>

definition budgetMultipliers :: "(string \<times> (real \<times> real)) list" where
  "budgetMultipliers =
     [(''25k-40k'', (25000, 40000)),
      (''40k-60k'', (40000, 60000)),
      (''60k-80k'', (60000, 80000)),
      (''80k-100k'', (80000, 100000)),
      (''100k-plus'', (100000, 150000))]"

definition complexityMultipliers :: "(string \<times> real) list" where
  "complexityMultipliers =
     [(''standard'', 85 / 100),
      (''high'', 1),
      (''premium'', 125 / 100)]"

text \<open>
  \<^verbatim>\<open>budgetMultipliers[budgetRange] || { min: 35000, max: 50000 }\<close>, as the pair of
  \<^verbatim>\<open>budget.min\<close> and \<^verbatim>\<open>budget.max\<close>. An inherited property is truthy, so the default is
  not taken, and its \<^verbatim>\<open>min\<close> and \<^verbatim>\<open>max\<close> are \<^verbatim>\<open>undefined\<close>, which multiply to NaN.
\<close>

definition budget_of :: "string \<Rightarrow> jsnum \<times> jsnum" where
  "budget_of budgetRange =
     (case js_get budgetMultipliers budgetRange of
        Own (lo, hi) \<Rightarrow> (Num lo, Num hi)
      | Inherited k \<Rightarrow> (NaN, NaN)
      | Missing \<Rightarrow> (Num 35000, Num 50000))"

text \<open>\<^verbatim>\<open>complexityMultipliers[complexity] || 1.0\<close>, as the number it multiplies as.\<close>

definition multiplier_of :: "string \<Rightarrow> jsnum" where
  "multiplier_of complexity =
     (case js_get complexityMultipliers complexity of
        Own m \<Rightarrow> if m = 0 then Num 1 else Num m
      | Inherited k \<Rightarrow> NaN
      | Missing \<Rightarrow> Num 1)"

definition calculateCost :: "string \<Rightarrow> string \<Rightarrow> string" where
  "calculateCost budgetRange complexity =
     (let budget = budget_of budgetRange;
          multiplier = multiplier_of complexity;
          minCost = Math_round (num_times (fst budget) multiplier);
          maxCost = Math_round (num_times (snd budget) multiplier)
      in ''$'' @ toLocaleString minCost @ '' - $'' @ toLocaleString maxCost @ '' CAD'')"

section \<open>DesignVariationBuilder\<close>

text \<open>
  The helper functions below are private to the module, and every call passes one of
  the three literals \<^verbatim>\<open>"primary"\<close>, \<^verbatim>\<open>"enhanced"\<close>, \<^verbatim>\<open>"value"\<close> as the tier; the model
  gives the tier the type of these call sites. The preference strings come from the
  request and are arbitrary.
\<close>

datatype tier = Primary | Enhanced | Value

record Preferences =
  kitchenStyle :: string
  colorPreference :: string
  budgetRange :: string
  storageNeeds :: string
  cookingHabits :: string
  familySize :: string

record DesignVariation =
  name :: string
  description :: string
  cabinetStyle :: string
  colorPalette :: string
  keyFeatures :: "string list"
  timeline :: string
  complexity :: string
  whyThisWorks :: string
  layoutOptimization :: "string list"
  storageFeatures :: jsval

text \<open>One row of a table keyed by tier: \<^verbatim>\<open>{ primary: p, enhanced: e, value: v }\<close>.\<close>

definition by_tier :: "'a \<Rightarrow> 'a \<Rightarrow> 'a \<Rightarrow> tier \<Rightarrow> 'a" where
  "by_tier p e v t = (case t of Primary \<Rightarrow> p | Enhanced \<Rightarrow> e | Value \<Rightarrow> v)"

text \<open>\<^verbatim>\<open>s || d\<close> for a string \<open>s\<close>: the empty string is falsy.\<close>

definition or_else :: "string \<Rightarrow> string \<Rightarrow> string" where
  "or_else s d = (if s = [] then d else s)"

definition styles :: "(string \<times> (tier \<Rightarrow> string)) list" where
  "styles =
     [(''contemporary'', by_tier
         ''Flat-panel doors with sleek brushed hardware''
         ''Handleless flat-panel with integrated pulls and soft-close''
         ''Clean flat-panel with modern hardware''),
      (''traditional'', by_tier
         ''Raised-panel doors with classic brass hardware''
         ''Detailed raised-panel with crown molding and premium finishes''
         ''Simple raised-panel with traditional pulls''),
      (''transitional'', by_tier
         ''Shaker-style doors with brushed nickel hardware''
         ''Premium Shaker with soft-close mechanisms and custom details''
         ''Classic Shaker with standard hardware''),
      (''modern'', by_tier
         ''Ultra-flat doors with minimal linear hardware''
         ''Integrated handle-less design with push-to-open''
         ''Simple flat doors with sleek pulls''),
      (''farmhouse'', by_tier
         ''Beadboard doors with rustic bronze hardware''
         ''Detailed farmhouse with decorative elements and vintage accents''
         ''Simple farmhouse style with classic pulls''),
      (''scandinavian'', by_tier
         ''Light wood doors with minimal black hardware''
         ''Premium wood grain with integrated handles and natural finishes''
         ''Natural wood with simple hardware''),
      (''industrial'', by_tier
         ''Metal-accented doors with industrial black hardware''
         ''Mixed materials with exposed elements and custom metalwork''
         ''Industrial-inspired with metal accents'')]"

text \<open>
  \<^verbatim>\<open>styles[style]?.[tier] || "Custom cabinet style"\<close>. An inherited property has no
  property named after a tier, so the read of the tier gives \<^verbatim>\<open>undefined\<close> there.
\<close>

definition getCabinetStyle :: "string \<Rightarrow> tier \<Rightarrow> string" where
  "getCabinetStyle style tier =
     (case js_get styles style of
        Own row \<Rightarrow> or_else (row tier) ''Custom cabinet style''
      | Inherited k \<Rightarrow> ''Custom cabinet style''
      | Missing \<Rightarrow> ''Custom cabinet style'')"

definition palettes :: "(string \<times> (tier \<Rightarrow> string)) list" where
  "palettes =
     [(''light-neutral'', by_tier
         ''Crisp whites with warm gray accents and quartz counters''
         ''Premium whites with marble-inspired veining and gold accents''
         ''Clean whites with subtle gray undertones''),
      (''dark-dramatic'', by_tier
         ''Deep charcoal with contrasting light quartz counters''
         ''Rich navy with brass accent hardware and marble backsplash''
         ''Dark gray with white contrast elements''),
      (''warm-wood'', by_tier
         ''Natural oak with complementary earth tones and granite''
         ''Premium walnut with brass accents and natural stone''
         ''Warm maple with classic finishes''),
      (''two-tone'', by_tier
         ''White uppers with gray lowers and coordinated hardware''
         ''Contrasting island with premium coordinated colors and finishes''
         ''Simple two-tone with balanced contrast''),
      (''bold-colors'', by_tier
         ''Custom color with neutral balance and modern accents''
         ''Rich color with premium accent materials and designer touches''
         ''Tasteful color with classic combinations'')]"

definition getColorPalette :: "string \<Rightarrow> tier \<Rightarrow> string" where
  "getColorPalette colorPref tier =
     (case js_get palettes colorPref of
        Own row \<Rightarrow> or_else (row tier) ''Custom color palette designed for your space''
      | Inherited k \<Rightarrow> ''Custom color palette designed for your space''
      | Missing \<Rightarrow> ''Custom color palette designed for your space'')"

definition baseFeatures :: "tier \<Rightarrow> string list" where
  "baseFeatures = by_tier
     [''Soft-close doors and drawers'',
      ''Under-cabinet LED lighting'',
      ''Quartz countertops'',
      ''Custom storage solutions'',
      ''Premium hardware finishes'',
      ''Professional installation'']
     [''Premium soft-close mechanisms'',
      ''Integrated LED lighting system'',
      ''Luxury quartz with waterfall edge'',
      ''Advanced storage organization'',
      ''Designer hardware collection'',
      ''Built-in charging stations'',
      ''Custom crown molding'']
     [''Quality soft-close hinges'',
      ''LED under-cabinet strips'',
      ''Durable quartz surfaces'',
      ''Efficient storage design'',
      ''Stylish hardware selection'',
      ''Professional installation'']"

text \<open>
  \<^verbatim>\<open>baseFeatures[tier] || baseFeatures.primary\<close>: each of the three tiers is an own
  property holding an array, which is truthy.
\<close>

definition getKeyFeatures :: "string \<Rightarrow> string \<Rightarrow> string \<Rightarrow> tier \<Rightarrow> string list" where
  "getKeyFeatures style storage cooking tier = baseFeatures tier"

definition getLayoutOptimization :: "string \<Rightarrow> string \<Rightarrow> tier \<Rightarrow> string list" where
  "getLayoutOptimization cooking storage tier =
     (let optimizations = [];
          optimizations =
            (if includes_str cooking ''daily'' \<or> includes_str cooking ''frequent''
             then optimizations @
                    [''Optimized work triangle for efficient cooking'',
                     ''Multiple prep areas for complex meals'']
             else optimizations);
          optimizations =
            (if includes_str cooking ''entertainer''
             then optimizations @
                    [''Open layout for social cooking and entertaining'',
                     ''Extended counter space for serving guests'']
             else optimizations);
          optimizations =
            (if includes_str storage ''maximum''
             then optimizations @
                    [''Floor-to-ceiling storage maximization'',
                     ''Corner cabinet optimization with lazy susans'']
             else optimizations);
          optimizations =
            (if tier = Enhanced
             then optimizations @
                    [''Smart appliance integration zones'',
                     ''Hidden storage solutions and secret compartments'']
             else optimizations)
      in if length optimizations > 0 then optimizations
         else [''Improved workflow efficiency'', ''Optimized storage placement'',
               ''Enhanced counter workspace''])"

definition features :: "(string \<times> string list) list" where
  "features =
     [(''maximum-storage'',
         [''Floor-to-ceiling cabinets with crown molding'',
          ''Deep drawer systems with full extension slides'',
          ''Corner cabinet solutions with lazy susans'',
          ''Pantry organization systems with pull-out shelves'']),
      (''organized-storage'',
         [''Pull-out drawer organizers with dividers'',
          ''Spice rack systems and condiment storage'',
          ''Divided storage compartments for utensils'',
          ''Lazy Susan corner units for easy access'']),
      (''display-storage'',
         [''Glass-front upper cabinets with interior lighting'',
          ''Open shelving displays for decorative items'',
          ''Wine storage features and glass racks'',
          ''Decorative storage elements and display niches'']),
      (''hidden-storage'',
         [''Integrated appliance panels for seamless look'',
          ''Hidden storage compartments and secret drawers'',
          ''Seamless cabinet integration with walls'',
          ''Concealed organization systems behind doors'']),
      (''pantry-storage'',
         [''Walk-in pantry design with custom shelving'',
          ''Pull-out pantry systems with wire baskets'',
          ''Food storage organization with clear containers'',
          ''Bulk storage solutions for Calgary families''])]"

definition generic_storage_features :: "string list" where
  "generic_storage_features =
     [''Custom storage solutions tailored to your needs'',
      ''Organized cabinet interiors with adjustable shelves'',
      ''Efficient space utilization for Calgary homes'',
      ''Quality storage hardware with lifetime warranty'']"

definition enhanced_storage_features :: "string list" where
  "enhanced_storage_features =
     [''Smart storage technology integration'',
      ''Premium organization systems with soft-close'']"

text \<open>
  \<^verbatim>\<open>[...baseFeatures, a, b]\<close>: an array spreads to its elements and a string to its
  characters; anything else is not iterable and the spread throws.
\<close>

definition spread_with :: "jsval \<Rightarrow> string list \<Rightarrow> error + jsval" where
  "spread_with v extra =
     (case v of
        JArr xs \<Rightarrow> Inr (JArr (xs @ extra))
      | JStr s \<Rightarrow> Inr (JArr (map (\<lambda>c. [c]) s @ extra))
      | JBuiltin k \<Rightarrow> Inl (TypeError ''baseFeatures is not iterable''))"

text \<open>
  \<^verbatim>\<open>features[storage] || [ ...generic list... ]\<close>: an own array and an inherited property
  are both truthy; only a key that is missing altogether takes the generic list.
\<close>

definition getStorageFeatures :: "string \<Rightarrow> tier \<Rightarrow> error + jsval" where
  "getStorageFeatures storage tier =
     (let baseFeatures =
            (case js_get features storage of
               Own xs \<Rightarrow> JArr xs
             | Inherited k \<Rightarrow> JBuiltin k
             | Missing \<Rightarrow> JArr generic_storage_features)
      in if tier = Enhanced then spread_with baseFeatures enhanced_storage_features
         else Inr baseFeatures)"

text \<open>
  The three object literals are evaluated and pushed in order; the storage features are
  the last property of each, so a throw there abandons the whole call.
\<close>

definition createDesignVariations :: "Preferences \<Rightarrow> error + DesignVariation list" where
  "createDesignVariations preferences =
     (let baseStyle = kitchenStyle preferences;
          colorPref = colorPreference preferences;
          budget = budgetRange preferences;
          storage = storageNeeds preferences;
          cooking = cookingHabits preferences
      in case getStorageFeatures storage Primary of
           Inl e \<Rightarrow> Inl e
         | Inr primaryStorage \<Rightarrow>
      (case getStorageFeatures storage Enhanced of
           Inl e \<Rightarrow> Inl e
         | Inr enhancedStorage \<Rightarrow>
      (case getStorageFeatures storage Value of
           Inl e \<Rightarrow> Inl e
         | Inr valueStorage \<Rightarrow>
        Inr
         [\<lparr>name = ''Custom '' @ capitalizeFirst baseStyle @ '' Design'',
           description = ''A personalized '' @ baseStyle @
             '' kitchen designed specifically for your Calgary home, cooking style, and storage needs.'',
           cabinetStyle = getCabinetStyle baseStyle Primary,
           colorPalette = getColorPalette colorPref Primary,
           keyFeatures = getKeyFeatures baseStyle storage cooking Primary,
           timeline = ''10-12 weeks'',
           complexity = ''high'',
           whyThisWorks = ''This design perfectly matches your '' @ baseStyle @
             '' style preference while optimizing for your '' @ cooking @
             '' cooking habits and '' @ storage @
             '' storage needs. Perfect for Calgary's lifestyle.'',
           layoutOptimization = getLayoutOptimization cooking storage Primary,
           storageFeatures = primaryStorage\<rparr>,
          \<lparr>name = ''Premium '' @ capitalizeFirst baseStyle @ '' Collection'',
           description = ''An elevated version of your preferred style with luxury features and enhanced functionality for the discerning Calgary homeowner.'',
           cabinetStyle = getCabinetStyle baseStyle Enhanced,
           colorPalette = getColorPalette colorPref Enhanced,
           keyFeatures = getKeyFeatures baseStyle storage cooking Enhanced,
           timeline = ''12-14 weeks'',
           complexity = ''premium'',
           whyThisWorks = ''This premium design builds on your style preferences with luxury materials and advanced storage solutions for the ultimate Calgary kitchen experience.'',
           layoutOptimization = getLayoutOptimization cooking storage Enhanced,
           storageFeatures = enhancedStorage\<rparr>,
          \<lparr>name = ''Smart '' @ capitalizeFirst baseStyle @ '' Value'',
           description = ''A cost-effective approach to your preferred style without compromising on Urban Woodspace quality or functionality.'',
           cabinetStyle = getCabinetStyle baseStyle Value,
           colorPalette = getColorPalette colorPref Value,
           keyFeatures = getKeyFeatures baseStyle storage cooking Value,
           timeline = ''8-10 weeks'',
           complexity = ''standard'',
           whyThisWorks = ''This design delivers your desired '' @ baseStyle @
             '' aesthetic with smart material choices and efficient layouts that maximize value for Calgary families.'',
           layoutOptimization = getLayoutOptimization cooking storage Value,
           storageFeatures = valueStorage\<rparr>])))"

section \<open>ImagePromptComposer\<close>

text \<open>
  The prompt is grown by \<^verbatim>\<open>prompt += ...\<close>, one statement after the other. The
  storage clause calls \<^verbatim>\<open>slice(0, 3).join(", ")\<close> on the stored storage features: an
  array gives its first three items joined; a string has \<^verbatim>\<open>slice\<close> but its result has no
  \<^verbatim>\<open>join\<close>, and a built-in object has no \<^verbatim>\<open>slice\<close>, so both throw.
\<close>

definition createImagePrompt :: "DesignVariation \<Rightarrow> Preferences \<Rightarrow> string \<Rightarrow> error + string" where
  "createImagePrompt design preferences originalImageUrl =
     (let style = kitchenStyle preferences;
          colorPref = colorPreference preferences;
          cooking = cookingHabits preferences;
          family = familySize preferences;
          prompt = ''A stunning, photorealistic 3D rendering of a '' @ style @
                   '' kitchen design for Urban Woodspace Calgary. '';
          prompt =
            (if style = ''contemporary'' then
               prompt @ ''Clean lines, flat-panel cabinets, minimalist design with sleek hardware and modern appliances. ''
             else if style = ''traditional'' then
               prompt @ ''Classic raised-panel cabinets, elegant details, timeless design with traditional hardware and warm finishes. ''
             else if style = ''transitional'' then
               prompt @ ''Shaker-style cabinets blending traditional and modern elements with versatile hardware. ''
             else if style = ''modern'' then
               prompt @ ''Ultra-modern design with handleless cabinets, cutting-edge features, and minimalist aesthetics. ''
             else if style = ''farmhouse'' then
               prompt @ ''Rustic farmhouse charm with beadboard details, vintage-inspired elements, and cozy warmth. ''
             else if style = ''scandinavian'' then
               prompt @ ''Light wood tones, natural materials, bright and airy Scandinavian design with clean lines. ''
             else if style = ''industrial'' then
               prompt @ ''Industrial aesthetic with metal accents, urban design elements, and modern functionality. ''
             else prompt);
          prompt = prompt @ ''Color scheme: '' @ colorPalette design @ ''. '';
          prompt =
            (if includes_str cooking ''daily'' \<or> includes_str cooking ''frequent'' then
               prompt @ ''Efficient work triangle layout with multiple prep areas and professional-grade workflow. ''
             else prompt);
          prompt =
            (if includes_str cooking ''entertainer'' then
               prompt @ ''Open layout perfect for entertaining with large island and social cooking areas. ''
             else prompt);
          prompt =
            (if includes_str family ''large'' then
               prompt @ ''Spacious design accommodating large family needs with ample storage and workspace. ''
             else prompt);
          prompt = prompt @ cabinetStyle design @
                   ''. Premium quartz countertops, under-cabinet LED lighting, high-end stainless steel appliances. ''
      in case storageFeatures design of
           JBuiltin k \<Rightarrow> Inl (TypeError ''design.storageFeatures.slice is not a function'')
         | JStr s \<Rightarrow> Inl (TypeError ''design.storageFeatures.slice(...).join is not a function'')
         | JArr items \<Rightarrow>
             (let prompt = prompt @ ''Storage features: '' @ join '', '' (take 3 items) @ ''. '';
                  prompt = prompt @ ''Designed for Calgary homes with practical storage for winter gear and seasonal items. '';
                  prompt = prompt @ ''Professional architectural photography style, perfect natural lighting, 4K quality, hyperrealistic rendering. The kitchen should look like a high-end interior design magazine photo with perfect staging, warm lighting, and inviting atmosphere. Show the space as lived-in and welcoming for a Calgary family.''
              in Inr prompt))"

section \<open>GenerationOrchestrator\<close>

text \<open>
  The image-synthesis capability is outside the program. One call either throws (the
  call itself, or the read of \<^verbatim>\<open>data[0]\<close> on its response) or responds, and
  \<^verbatim>\<open>imageResponse.data[0]?.url\<close> of a response is a string or \<^verbatim>\<open>undefined\<close>. The
  capability is a function of the call's position in the loop and of the prompt, so that
  it may answer each call differently.
\<close>

datatype synth_outcome = Throws | Responds "string option"

type_synonym synthesis = "nat \<Rightarrow> string \<Rightarrow> synth_outcome"

text \<open>A pushed design is an object literal: its properties in order, by name.\<close>

type_synonym GeneratedDesign = "(string \<times> jsval) list"

record GenerationStats =
  imagesGenerated :: nat
  imagesFailed :: nat

text \<open>
  The body of the \<^verbatim>\<open>try\<close> block, up to the design it would push: \<open>Inl\<close> is the
  exception that leaves the block, thrown by the prompt composer, by the capability, or by
  \<^verbatim>\<open>throw new Error("No image URL returned")\<close> when the URL is \<^verbatim>\<open>undefined\<close> or empty.
\<close>

definition try_generate ::
  "synthesis \<Rightarrow> Preferences \<Rightarrow> string \<Rightarrow> nat \<Rightarrow> DesignVariation \<Rightarrow> error + GeneratedDesign" where
  "try_generate synth preferences imageUrl index designVariation =
     (case createImagePrompt designVariation preferences imageUrl of
        Inl e \<Rightarrow> Inl e
      | Inr imagePrompt \<Rightarrow>
          (case synth index imagePrompt of
             Throws \<Rightarrow> Inl ApiError
           | Responds None \<Rightarrow> Inl (Error ''No image URL returned'')
           | Responds (Some generatedImageUrl) \<Rightarrow>
               if generatedImageUrl = [] then Inl (Error ''No image URL returned'')
               else Inr
                 [(''styleName'', JStr (name designVariation)),
                  (''description'', JStr (description designVariation)),
                  (''cabinetStyle'', JStr (cabinetStyle designVariation)),
                  (''colorPalette'', JStr (colorPalette designVariation)),
                  (''keyFeatures'', JArr (keyFeatures designVariation)),
                  (''estimatedCost'',
                     JStr (calculateCost (budgetRange preferences) (complexity designVariation))),
                  (''timeline'', JStr (timeline designVariation)),
                  (''whyThisWorks'', JStr (whyThisWorks designVariation)),
                  (''layoutOptimization'', JArr (layoutOptimization designVariation)),
                  (''storageFeatures'', storageFeatures designVariation),
                  (''generatedImage'', JStr generatedImageUrl),
                  (''imagePrompt'', JStr imagePrompt),
                  (''imageStatus'', JStr ''success'')]))"

text \<open>The design pushed by the \<^verbatim>\<open>catch\<close> block.\<close>

definition failed_design :: "Preferences \<Rightarrow> DesignVariation \<Rightarrow> GeneratedDesign" where
  "failed_design preferences designVariation =
     [(''styleName'', JStr (name designVariation)),
      (''description'', JStr (description designVariation)),
      (''cabinetStyle'', JStr (cabinetStyle designVariation)),
      (''colorPalette'', JStr (colorPalette designVariation)),
      (''keyFeatures'', JArr (keyFeatures designVariation)),
      (''estimatedCost'',
         JStr (calculateCost (budgetRange preferences) (complexity designVariation))),
      (''timeline'', JStr (timeline designVariation)),
      (''whyThisWorks'', JStr (whyThisWorks designVariation)),
      (''layoutOptimization'', JArr (layoutOptimization designVariation)),
      (''storageFeatures'', storageFeatures designVariation),
      (''imageStatus'', JStr ''failed'')]"

text \<open>
  The loop \<^verbatim>\<open>for (const [index, designVariation] of designVariations.entries())\<close>, with
  \<^verbatim>\<open>designs\<close> and \<^verbatim>\<open>stats\<close> as its state.
\<close>

fun generate_loop ::
  "synthesis \<Rightarrow> Preferences \<Rightarrow> string \<Rightarrow> nat \<Rightarrow> DesignVariation list \<Rightarrow>
   GeneratedDesign list \<times> GenerationStats \<Rightarrow> GeneratedDesign list \<times> GenerationStats" where
  "generate_loop synth preferences imageUrl index [] state = state"
| "generate_loop synth preferences imageUrl index (designVariation # rest) (designs, stats) =
     (case try_generate synth preferences imageUrl index designVariation of
        Inr design \<Rightarrow>
          generate_loop synth preferences imageUrl (Suc index) rest
            (designs @ [design], stats\<lparr>imagesGenerated := imagesGenerated stats + 1\<rparr>)
      | Inl e \<Rightarrow>
          generate_loop synth preferences imageUrl (Suc index) rest
            (designs @ [failed_design preferences designVariation],
             stats\<lparr>imagesFailed := imagesFailed stats + 1\<rparr>))"

text \<open>
  The \<^verbatim>\<open>generate\<close> branch from the call of \<^verbatim>\<open>createDesignVariations\<close> on. An exception of
  that call is outside the loop's \<^verbatim>\<open>try\<close> and reaches the handler of the request.
\<close>

definition generate ::
  "synthesis \<Rightarrow> Preferences \<Rightarrow> string \<Rightarrow> error + GeneratedDesign list \<times> GenerationStats" where
  "generate synth preferences imageUrl =
     (case createDesignVariations preferences of
        Inl e \<Rightarrow> Inl e
      | Inr designVariations \<Rightarrow>
          Inr (generate_loop synth preferences imageUrl 0 designVariations
                 ([], \<lparr>imagesGenerated = 0, imagesFailed = 0\<rparr>)))"

section \<open>AnalysisExtractor\<close>

text \<open>
  \<^verbatim>\<open>lines.find(...)\<close> gives the first matching line or \<^verbatim>\<open>undefined\<close>; the result is the
  trimmed line, or \<^verbatim>\<open>null\<close> (\<open>None\<close>) when the found line is falsy.
\<close>

definition found_line :: "string option \<Rightarrow> string option" where
  "found_line l = (case l of None \<Rightarrow> None | Some s \<Rightarrow> if s = [] then None else Some (trim s))"

definition extractFromAnalysis :: "string \<Rightarrow> string \<Rightarrow> string option" where
  "extractFromAnalysis text type =
     (let lines = split_lines (toLowerCase text)
      in if type = ''dimensions'' then
           found_line (find (\<lambda>line.
             includes_str line ''dimension'' \<or>
             includes_str line ''size'' \<or>
             includes_str line ''feet'' \<or>
             includes_str line [CHR 0x27] \<or>
             includes_str line ''x'') lines)
         else if type = ''layout'' then
           found_line (find (\<lambda>line.
             includes_str line ''layout'' \<or>
             includes_str line ''galley'' \<or>
             includes_str line ''l-shaped'' \<or>
             includes_str line ''u-shaped'' \<or>
             includes_str line ''island'') lines)
         else if type = ''lighting'' then
           found_line (find (\<lambda>line.
             includes_str line ''light'' \<or> includes_str line ''window'' \<or>
             includes_str line ''bright'') lines)
         else None)"

definition extractFeatures :: "string \<Rightarrow> string list" where
  "extractFeatures text =
     (let features = [];
          features = (if includes_str (toLowerCase text) ''window''
                      then features @ [''Natural lighting from windows''] else features);
          features = (if includes_str (toLowerCase text) ''ceiling''
                      then features @ [''Standard ceiling height''] else features);
          features = (if includes_str (toLowerCase text) ''floor''
                      then features @ [''Existing flooring''] else features);
          features = (if includes_str (toLowerCase text) ''door''
                      then features @ [''Door access points''] else features)
      in if length features > 0 then features
         else [''Natural lighting'', ''Standard ceiling height'', ''Existing flooring''])"

definition extractChallenges :: "string \<Rightarrow> string list" where
  "extractChallenges text =
     (let challenges = [];
          challenges =
            (if includes_str (toLowerCase text) ''small'' \<or> includes_str (toLowerCase text) ''limited''
             then challenges @ [''Limited space optimization''] else challenges);
          challenges =
            (if includes_str (toLowerCase text) ''old'' \<or> includes_str (toLowerCase text) ''dated''
             then challenges @ [''Outdated design elements''] else challenges);
          challenges = (if includes_str (toLowerCase text) ''storage''
                        then challenges @ [''Insufficient storage''] else challenges);
          challenges = (if includes_str (toLowerCase text) ''light''
                        then challenges @ [''Lighting improvements needed''] else challenges)
      in if length challenges > 0 then challenges
         else [''Space optimization needed'', ''Storage improvements'', ''Lighting updates''])"

definition extractOpportunities :: "string \<Rightarrow> string list" where
  "extractOpportunities text =
     [''Maximize vertical storage with tall cabinets'',
      ''Improve workflow with optimized layout'',
      ''Add modern lighting solutions'',
      ''Create more counter workspace'',
      ''Enhance storage organization'']"

definition extractArchitectural :: "string \<Rightarrow> string list" where
  "extractArchitectural text =
     [''Standard wall construction'', ''Existing flooring'', ''Window placement'',
      ''Door locations'']"

definition extractRecommendedStyles :: "string \<Rightarrow> string list" where
  "extractRecommendedStyles text =
     (let styles = [];
          textLower = toLowerCase text;
          styles = (if includes_str textLower ''modern'' \<or> includes_str textLower ''contemporary''
                    then styles @ [''Contemporary''] else styles);
          styles = (if includes_str textLower ''traditional'' \<or> includes_str textLower ''classic''
                    then styles @ [''Traditional''] else styles);
          styles = (if includes_str textLower ''transitional''
                    then styles @ [''Transitional''] else styles);
          styles = (if includes_str textLower ''farmhouse'' \<or> includes_str textLower ''rustic''
                    then styles @ [''Farmhouse''] else styles)
      in if length styles > 0 then styles
         else [''Contemporary'', ''Traditional'', ''Transitional''])"

definition extractOptimization :: "string \<Rightarrow> string list" where
  "extractOptimization text =
     [''Optimize work triangle efficiency'',
      ''Maximize storage capacity'',
      ''Improve traffic flow'',
      ''Enhance natural lighting'']"

record SpaceAnalysis =
  roomDimensions :: string
  layoutType :: string
  existingFeatures :: "string list"
  challenges :: "string list"
  opportunities :: "string list"
  lightingSituation :: string
  architecturalElements :: "string list"
  recommendedStyles :: "string list"
  spaceOptimization :: "string list"

text \<open>\<^verbatim>\<open>x || d\<close> for \<open>x\<close> a string or \<^verbatim>\<open>null\<close>.\<close>

definition or_default :: "string option \<Rightarrow> string \<Rightarrow> string" where
  "or_default x d = (case x of None \<Rightarrow> d | Some s \<Rightarrow> or_else s d)"

text \<open>The object literal \<^verbatim>\<open>spaceAnalysis\<close> of the \<^verbatim>\<open>analyze\<close> branch.\<close>

definition spaceAnalysis :: "string \<Rightarrow> SpaceAnalysis" where
  "spaceAnalysis analysisText =
     \<lparr>roomDimensions =
        or_default (extractFromAnalysis analysisText ''dimensions'')
          ''Approximately 10' x 12' kitchen space'',
      layoutType =
        or_default (extractFromAnalysis analysisText ''layout'') ''Standard kitchen layout'',
      existingFeatures = extractFeatures analysisText,
      challenges = extractChallenges analysisText,
      opportunities = extractOpportunities analysisText,
      lightingSituation =
        or_default (extractFromAnalysis analysisText ''lighting'') ''Natural light from windows'',
      architecturalElements = extractArchitectural analysisText,
      recommendedStyles = extractRecommendedStyles analysisText,
      spaceOptimization = extractOptimization analysisText\<rparr>"

section \<open>Notions of the specification\<close>

subsection \<open>Clauses of the prompt\<close>

text \<open>
  The specification describes the prompt as a sequence of clauses. Each clause is
  defined here on its own, to be compared with what \<^const>\<open>createImagePrompt\<close> builds.
\<close>

definition base_sentence :: "string \<Rightarrow> string" where
  "base_sentence style =
     ''A stunning, photorealistic 3D rendering of a '' @ style @
     '' kitchen design for Urban Woodspace Calgary. ''"

definition style_clauses :: "(string \<times> string) list" where
  "style_clauses =
     [(''contemporary'', ''Clean lines, flat-panel cabinets, minimalist design with sleek hardware and modern appliances. ''),
      (''traditional'', ''Classic raised-panel cabinets, elegant details, timeless design with traditional hardware and warm finishes. ''),
      (''transitional'', ''Shaker-style cabinets blending traditional and modern elements with versatile hardware. ''),
      (''modern'', ''Ultra-modern design with handleless cabinets, cutting-edge features, and minimalist aesthetics. ''),
      (''farmhouse'', ''Rustic farmhouse charm with beadboard details, vintage-inspired elements, and cozy warmth. ''),
      (''scandinavian'', ''Light wood tones, natural materials, bright and airy Scandinavian design with clean lines. ''),
      (''industrial'', ''Industrial aesthetic with metal accents, urban design elements, and modern functionality. '')]"

text \<open>One of seven, chosen by exact match of the style; no clause for any other style.\<close>

definition style_clause :: "string \<Rightarrow> string" where
  "style_clause style = (case map_of style_clauses style of Some clause \<Rightarrow> clause | None \<Rightarrow> [])"

definition color_clause :: "string \<Rightarrow> string" where
  "color_clause palette = ''Color scheme: '' @ palette @ ''. ''"

definition cooking_clauses :: "string \<Rightarrow> string" where
  "cooking_clauses cooking =
     (if includes_str cooking ''daily'' \<or> includes_str cooking ''frequent''
      then ''Efficient work triangle layout with multiple prep areas and professional-grade workflow. ''
      else []) @
     (if includes_str cooking ''entertainer''
      then ''Open layout perfect for entertaining with large island and social cooking areas. ''
      else [])"

definition family_clause :: "string \<Rightarrow> string" where
  "family_clause family =
     (if includes_str family ''large''
      then ''Spacious design accommodating large family needs with ample storage and workspace. ''
      else [])"

definition technical_clause :: "string \<Rightarrow> string" where
  "technical_clause cabinet =
     cabinet @ ''. Premium quartz countertops, under-cabinet LED lighting, high-end stainless steel appliances. ''"

definition storage_clause :: "string list \<Rightarrow> string" where
  "storage_clause items = ''Storage features: '' @ join '', '' (take 3 items) @ ''. ''"

definition calgary_clause :: string where
  "calgary_clause = ''Designed for Calgary homes with practical storage for winter gear and seasonal items. ''"

definition closing_clause :: string where
  "closing_clause = ''Professional architectural photography style, perfect natural lighting, 4K quality, hyperrealistic rendering. The kitchen should look like a high-end interior design magazine photo with perfect staging, warm lighting, and inviting atmosphere. Show the space as lived-in and welcoming for a Calgary family.''"

text \<open>Everything the prompt holds before its storage clause.\<close>

definition clauses_before_storage :: "Preferences \<Rightarrow> string \<Rightarrow> string \<Rightarrow> string" where
  "clauses_before_storage preferences palette cabinet =
     base_sentence (kitchenStyle preferences) @ style_clause (kitchenStyle preferences) @
     color_clause palette @ cooking_clauses (cookingHabits preferences) @
     family_clause (familySize preferences) @ technical_clause cabinet"

text \<open>
  The prompt as the specification lists it: base sentence, style clause, colour clause,
  cooking clauses, family clause, technical clause, storage clause, closing clause, and
  no others.
\<close>

definition listed_prompt :: "Preferences \<Rightarrow> DesignVariation \<Rightarrow> string list \<Rightarrow> string" where
  "listed_prompt preferences design items =
     clauses_before_storage preferences (colorPalette design) (cabinetStyle design) @
     storage_clause items @ closing_clause"

subsection \<open>Outcomes of the synthesis calls\<close>

text \<open>The capability fails on a call: it throws, or it returns no URL.\<close>

definition synthesis_fails :: "synthesis \<Rightarrow> nat \<Rightarrow> string \<Rightarrow> bool" where
  "synthesis_fails synth index prompt =
     (case synth index prompt of
        Throws \<Rightarrow> True
      | Responds None \<Rightarrow> True
      | Responds (Some url) \<Rightarrow> url = [])"

text \<open>A call is a variation with its position in the loop.\<close>

definition call_fails :: "synthesis \<Rightarrow> Preferences \<Rightarrow> string \<Rightarrow> nat \<times> DesignVariation \<Rightarrow> bool" where
  "call_fails synth preferences imageUrl call =
     (case createImagePrompt (snd call) preferences imageUrl of
        Inl e \<Rightarrow> True
      | Inr prompt \<Rightarrow> synthesis_fails synth (fst call) prompt)"

text \<open>The design that one turn of the loop pushes, from either block.\<close>

definition pushed_design ::
  "synthesis \<Rightarrow> Preferences \<Rightarrow> string \<Rightarrow> nat \<times> DesignVariation \<Rightarrow> GeneratedDesign" where
  "pushed_design synth preferences imageUrl call =
     (case try_generate synth preferences imageUrl (fst call) (snd call) of
        Inr design \<Rightarrow> design
      | Inl e \<Rightarrow> failed_design preferences (snd call))"

definition has_status :: "string \<Rightarrow> GeneratedDesign \<Rightarrow> bool" where
  "has_status status design = (map_of design ''imageStatus'' = Some (JStr status))"

definition no_image_fields :: "GeneratedDesign \<Rightarrow> bool" where
  "no_image_fields design =
     (map_of design ''generatedImage'' = None \<and> map_of design ''imagePrompt'' = None)"

text \<open>The properties that both pushes write, in their order.\<close>

definition shared_fields :: "string list" where
  "shared_fields =
     [''styleName'', ''description'', ''cabinetStyle'', ''colorPalette'', ''keyFeatures'',
      ''estimatedCost'', ''timeline'', ''whyThisWorks'', ''layoutOptimization'',
      ''storageFeatures'']"

subsection \<open>Keywords and defaults of the analysis\<close>

text \<open>Every keyword that one of the extraction functions looks for.\<close>

definition recognized_keywords :: "string list" where
  "recognized_keywords =
     [''dimension'', ''size'', ''feet'', [CHR 0x27], ''x'',
      ''layout'', ''galley'', ''l-shaped'', ''u-shaped'', ''island'',
      ''light'', ''window'', ''bright'',
      ''ceiling'', ''floor'', ''door'',
      ''small'', ''limited'', ''old'', ''dated'', ''storage'',
      ''modern'', ''contemporary'', ''traditional'', ''classic'', ''transitional'',
      ''farmhouse'', ''rustic'']"

definition mentions_keyword :: "string \<Rightarrow> bool" where
  "mentions_keyword text = list_ex (includes_str (toLowerCase text)) recognized_keywords"

definition default_analysis :: SpaceAnalysis where
  "default_analysis =
     \<lparr>roomDimensions = ''Approximately 10' x 12' kitchen space'',
      layoutType = ''Standard kitchen layout'',
      existingFeatures = [''Natural lighting'', ''Standard ceiling height'', ''Existing flooring''],
      challenges = [''Space optimization needed'', ''Storage improvements'', ''Lighting updates''],
      opportunities =
        [''Maximize vertical storage with tall cabinets'',
         ''Improve workflow with optimized layout'',
         ''Add modern lighting solutions'',
         ''Create more counter workspace'',
         ''Enhance storage organization''],
      lightingSituation = ''Natural light from windows'',
      architecturalElements =
        [''Standard wall construction'', ''Existing flooring'', ''Window placement'',
         ''Door locations''],
      recommendedStyles = [''Contemporary'', ''Traditional'', ''Transitional''],
      spaceOptimization =
        [''Optimize work triangle efficiency'',
         ''Maximize storage capacity'',
         ''Improve traffic flow'',
         ''Enhance natural lighting'']\<rparr>"

definition all_fields_populated :: "SpaceAnalysis \<Rightarrow> bool" where
  "all_fields_populated a =
     (roomDimensions a \<noteq> [] \<and> layoutType a \<noteq> [] \<and> existingFeatures a \<noteq> [] \<and>
      challenges a \<noteq> [] \<and> opportunities a \<noteq> [] \<and> lightingSituation a \<noteq> [] \<and>
      architecturalElements a \<noteq> [] \<and> recommendedStyles a \<noteq> [] \<and> spaceOptimization a \<noteq> [])"

subsection \<open>Example inputs\<close>

definition example_preferences :: Preferences where
  "example_preferences =
     \<lparr>kitchenStyle = ''modern'', colorPreference = ''two-tone'', budgetRange = ''60k-80k'',
      storageNeeds = ''pantry-storage'', cookingHabits = ''daily'', familySize = ''large''\<rparr>"

text \<open>A capability that throws on the second call and returns a URL on every other.\<close>

definition example_synthesis :: synthesis where
  "example_synthesis index prompt =
     (if index = 1 then Throws else Responds (Some ''https://images.test/kitchen.png''))"

definition example_design :: DesignVariation where
  "example_design =
     \<lparr>name = ''Custom Modern Design'',
      description = ''A personalized modern kitchen.'',
      cabinetStyle = ''Ultra-flat doors with minimal linear hardware'',
      colorPalette = ''White uppers with gray lowers and coordinated hardware'',
      keyFeatures = [''Quartz countertops''],
      timeline = ''10-12 weeks'',
      complexity = ''high'',
      whyThisWorks = ''It matches.'',
      layoutOptimization = [''Improved workflow efficiency''],
      storageFeatures = JArr [''one'', ''two'', ''three'', ''four'', ''five'']\<rparr>"

section \<open>Properties\<close>

subsection \<open>Reading a table\<close>

lemma js_get_Missing:
  "key \<notin> set (map fst obj) \<Longrightarrow> key \<notin> set Object_prototype_keys \<Longrightarrow> js_get obj key = Missing"
  by (simp add: js_get_def map_of_eq_None_iff[THEN iffD2] image_set[symmetric] del: image_set)

lemma js_get_Inherited:
  "key \<notin> set (map fst obj) \<Longrightarrow> key \<in> set Object_prototype_keys \<Longrightarrow>
   js_get obj key = Inherited key"
  by (simp add: js_get_def map_of_eq_None_iff[THEN iffD2] image_set[symmetric] del: image_set)

lemma js_get_not_Inherited:
  "key \<notin> set Object_prototype_keys \<Longrightarrow> js_get obj key \<noteq> Inherited k"
  by (simp add: js_get_def split: option.splits)

subsection \<open>The tier tables\<close>

text \<open>
  C9. \<^const>\<open>getKeyFeatures\<close> depends on its tier only: two calls with the same tier
  return the same list, whatever the style, the storage needs and the cooking habits are.
\<close>

theorem getKeyFeatures_tier_only:
  "getKeyFeatures style1 storage1 cooking1 tier = getKeyFeatures style2 storage2 cooking2 tier"
  by (simp add: getKeyFeatures_def)

lemma getCabinetStyle_unknown:
  assumes "style \<notin> set [''contemporary'', ''traditional'', ''transitional'', ''modern'',
                          ''farmhouse'', ''scandinavian'', ''industrial'']"
  shows "getCabinetStyle style tier = ''Custom cabinet style''"
proof -
  have "style \<notin> set (map fst styles)"
    using assms by (simp add: styles_def)
  then have "js_get styles style = Missing \<or> js_get styles style = Inherited style"
    using js_get_Missing js_get_Inherited by blast
  then show ?thesis
    by (auto simp: getCabinetStyle_def)
qed

lemma getColorPalette_unknown:
  assumes "colorPref \<notin> set [''light-neutral'', ''dark-dramatic'', ''warm-wood'', ''two-tone'',
                              ''bold-colors'']"
  shows "getColorPalette colorPref tier = ''Custom color palette designed for your space''"
proof -
  have "colorPref \<notin> set (map fst palettes)"
    using assms by (simp add: palettes_def)
  then have "js_get palettes colorPref = Missing \<or> js_get palettes colorPref = Inherited colorPref"
    using js_get_Missing js_get_Inherited by blast
  then show ?thesis
    by (auto simp: getColorPalette_def)
qed

lemma getStorageFeatures_unknown:
  assumes "storage \<notin> set [''maximum-storage'', ''organized-storage'', ''display-storage'',
                            ''hidden-storage'', ''pantry-storage'']"
    and "storage \<notin> set Object_prototype_keys"
  shows "getStorageFeatures storage tier =
           Inr (JArr (if tier = Enhanced
                      then generic_storage_features @ enhanced_storage_features
                      else generic_storage_features))"
proof -
  have "storage \<notin> set (map fst features)"
    using assms(1) by (simp add: features_def)
  then have "js_get features storage = Missing"
    using assms(2) by (rule js_get_Missing)
  then show ?thesis
    by (simp add: getStorageFeatures_def spread_with_def)
qed

text \<open>
  C4. For a style or a colour preference outside the table, \<^const>\<open>getCabinetStyle\<close> and
  \<^const>\<open>getColorPalette\<close> return their default string (the two lemmas above), and for
  storage needs outside the table \<^const>\<open>getStorageFeatures\<close> is to use the generic list.
  For the storage needs \<^verbatim>\<open>constructor\<close>, which are outside the table, it does not: the
  read finds the inherited property, the generic list is not taken, the tiers primary and
  value return the built-in object, and the tier enhanced throws on the spread.
\<close>

theorem getStorageFeatures_constructor:
  "getStorageFeatures ''constructor'' Primary = Inr (JBuiltin ''constructor'') \<and>
   getStorageFeatures ''constructor'' Value = Inr (JBuiltin ''constructor'') \<and>
   getStorageFeatures ''constructor'' Enhanced = Inl (TypeError ''baseFeatures is not iterable'')"
  by (simp add: getStorageFeatures_def spread_with_def js_get_def features_def
      Object_prototype_keys_def)

subsection \<open>CostEstimator\<close>

lemma calculateCost_60k_80k_premium:
  "calculateCost ''60k-80k'' ''premium'' = ''$75,000 - $100,000 CAD''"
  by (simp add: calculateCost_def budget_of_def multiplier_of_def js_get_def budgetMultipliers_def
      complexityMultipliers_def to_decimal.simps)

lemma calculateCost_unknown_high:
  assumes "bracket \<notin> set [''25k-40k'', ''40k-60k'', ''60k-80k'', ''80k-100k'', ''100k-plus'']"
    and "bracket \<notin> set Object_prototype_keys"
  shows "calculateCost bracket ''high'' = ''$35,000 - $50,000 CAD''"
proof -
  have "bracket \<notin> set (map fst budgetMultipliers)"
    using assms(1) by (simp add: budgetMultipliers_def)
  then have "js_get budgetMultipliers bracket = Missing"
    using assms(2) by (rule js_get_Missing)
  then show ?thesis
    by (simp add: calculateCost_def budget_of_def multiplier_of_def js_get_def
        complexityMultipliers_def to_decimal.simps)
qed

lemma calculateCost_formula:
  assumes "budget_of bracket = (Num lo, Num hi)" and "multiplier_of level = Num m"
  shows "calculateCost bracket level =
           ''$'' @ toLocaleString (Whole \<lfloor>lo * m + 1 / 2\<rfloor>) @
           '' - $'' @ toLocaleString (Whole \<lfloor>hi * m + 1 / 2\<rfloor>) @ '' CAD''"
  using assms by (simp add: calculateCost_def del: toLocaleString.simps)

text \<open>
  C5. \<^const>\<open>calculateCost\<close> is to return \<^verbatim>\<open>$35,000 - $50,000 CAD\<close> for every budget range
  outside the five brackets with the complexity \<^verbatim>\<open>high\<close>. For the budget range
  \<^verbatim>\<open>constructor\<close>, which is outside the five brackets, it does not: the read finds the
  inherited property, the default bracket is not taken, and both bounds are NaN.
\<close>

theorem calculateCost_constructor:
  "calculateCost ''constructor'' ''high'' = ''$NaN - $NaN CAD''"
  by (simp add: calculateCost_def budget_of_def multiplier_of_def js_get_def budgetMultipliers_def
      complexityMultipliers_def Object_prototype_keys_def)

subsection \<open>DesignVariationBuilder\<close>

lemma getStorageFeatures_array:
  assumes "storage \<notin> set Object_prototype_keys"
  shows "\<exists>items. getStorageFeatures storage tier = Inr (JArr items)"
proof (cases "js_get features storage")
  case (Own xs)
  then show ?thesis by (simp add: getStorageFeatures_def spread_with_def Let_def)
next
  case (Inherited k)
  then show ?thesis using assms js_get_not_Inherited by blast
next
  case Missing
  then show ?thesis by (simp add: getStorageFeatures_def spread_with_def Let_def)
qed

lemma getStorageFeatures_Inherited:
  assumes "storage \<in> set Object_prototype_keys"
  shows "getStorageFeatures storage tier =
           (if tier = Enhanced then Inl (TypeError ''baseFeatures is not iterable'')
            else Inr (JBuiltin storage))"
proof -
  have "storage \<notin> set (map fst features)"
    using assms by (auto simp: features_def Object_prototype_keys_def)
  then have "js_get features storage = Inherited storage"
    using assms by (rule js_get_Inherited)
  then show ?thesis
    by (simp add: getStorageFeatures_def spread_with_def Let_def)
qed

lemma createDesignVariations_throws:
  assumes "storageNeeds p \<in> set Object_prototype_keys"
  shows "createDesignVariations p = Inl (TypeError ''baseFeatures is not iterable'')"
  by (simp add: createDesignVariations_def Let_def getStorageFeatures_Inherited[OF assms])

lemma createDesignVariations_returns:
  assumes "storageNeeds p \<notin> set Object_prototype_keys"
  shows "\<exists>v1 v2 v3 i1 i2 i3.
     createDesignVariations p = Inr [v1, v2, v3] \<and>
     storageFeatures v1 = JArr i1 \<and> storageFeatures v2 = JArr i2 \<and> storageFeatures v3 = JArr i3 \<and>
     map complexity [v1, v2, v3] = [''high'', ''premium'', ''standard''] \<and>
     map timeline [v1, v2, v3] = [''10-12 weeks'', ''12-14 weeks'', ''8-10 weeks''] \<and>
     map cabinetStyle [v1, v2, v3] =
       map (getCabinetStyle (kitchenStyle p)) [Primary, Enhanced, Value] \<and>
     map name [v1, v2, v3] =
       [''Custom '' @ capitalizeFirst (kitchenStyle p) @ '' Design'',
        ''Premium '' @ capitalizeFirst (kitchenStyle p) @ '' Collection'',
        ''Smart '' @ capitalizeFirst (kitchenStyle p) @ '' Value'']"
proof -
  obtain i1 where 1: "getStorageFeatures (storageNeeds p) Primary = Inr (JArr i1)"
    using getStorageFeatures_array[OF assms] by blast
  obtain i2 where 2: "getStorageFeatures (storageNeeds p) Enhanced = Inr (JArr i2)"
    using getStorageFeatures_array[OF assms] by blast
  obtain i3 where 3: "getStorageFeatures (storageNeeds p) Value = Inr (JArr i3)"
    using getStorageFeatures_array[OF assms] by blast
  show ?thesis
    by (simp add: createDesignVariations_def Let_def 1 2 3)
qed

lemma createDesignVariations_Inr:
  assumes "createDesignVariations p = Inr vs"
  shows "length vs = 3"
    and "list_all (\<lambda>v. \<exists>items. storageFeatures v = JArr items) vs"
    and "map name vs =
       [''Custom '' @ capitalizeFirst (kitchenStyle p) @ '' Design'',
        ''Premium '' @ capitalizeFirst (kitchenStyle p) @ '' Collection'',
        ''Smart '' @ capitalizeFirst (kitchenStyle p) @ '' Value'']"
proof -
  have "storageNeeds p \<notin> set Object_prototype_keys"
    using assms createDesignVariations_throws by fastforce
  from createDesignVariations_returns[OF this] obtain v1 v2 v3 i1 i2 i3
    where r: "createDesignVariations p = Inr [v1, v2, v3]"
      and a: "storageFeatures v1 = JArr i1" "storageFeatures v2 = JArr i2"
        "storageFeatures v3 = JArr i3"
      and n: "map name [v1, v2, v3] =
       [''Custom '' @ capitalizeFirst (kitchenStyle p) @ '' Design'',
        ''Premium '' @ capitalizeFirst (kitchenStyle p) @ '' Collection'',
        ''Smart '' @ capitalizeFirst (kitchenStyle p) @ '' Value'']"
    by (elim exE conjE)
  have vs: "vs = [v1, v2, v3]"
    using r assms by simp
  show "length vs = 3"
    by (simp add: vs)
  show "list_all (\<lambda>v. \<exists>items. storageFeatures v = JArr items) vs"
    by (simp add: vs a)
  show "map name vs =
       [''Custom '' @ capitalizeFirst (kitchenStyle p) @ '' Design'',
        ''Premium '' @ capitalizeFirst (kitchenStyle p) @ '' Collection'',
        ''Smart '' @ capitalizeFirst (kitchenStyle p) @ '' Value'']"
    unfolding vs by (rule n)
qed

lemma createDesignVariations_example:
  "\<exists>vs. createDesignVariations example_preferences = Inr vs"
proof -
  have "storageNeeds example_preferences \<notin> set Object_prototype_keys"
    by (simp add: example_preferences_def Object_prototype_keys_def)
  from createDesignVariations_returns[OF this] show ?thesis
    by (elim exE conjE) (rule exI)
qed

text \<open>
  C3. For all valid preferences \<^const>\<open>createDesignVariations\<close> returns exactly three
  variations, of the tiers primary, enhanced and value in this order: their complexities
  are high, premium, standard and their timelines 10-12, 12-14 and 8-10 weeks. The
  theorem asks of the preferences only that the storage needs are not the name of a
  property inherited from \<^verbatim>\<open>Object.prototype\<close>; every other string is covered.
\<close>

theorem createDesignVariations_tiers:
  assumes "storageNeeds p \<notin> set Object_prototype_keys"
  shows "\<exists>vs. createDesignVariations p = Inr vs \<and> length vs = 3 \<and>
     map complexity vs = [''high'', ''premium'', ''standard''] \<and>
     map timeline vs = [''10-12 weeks'', ''12-14 weeks'', ''8-10 weeks''] \<and>
     map cabinetStyle vs = map (getCabinetStyle (kitchenStyle p)) [Primary, Enhanced, Value]"
  using createDesignVariations_returns[OF assms] by fastforce

theorem createDesignVariations_tiers_witness:
  "storageNeeds example_preferences \<notin> set Object_prototype_keys \<and>
   (\<exists>vs. createDesignVariations example_preferences = Inr vs \<and> length vs = 3 \<and>
     map complexity vs = [''high'', ''premium'', ''standard''] \<and>
     map timeline vs = [''10-12 weeks'', ''12-14 weeks'', ''8-10 weeks''] \<and>
     map cabinetStyle vs =
       [''Ultra-flat doors with minimal linear hardware'',
        ''Integrated handle-less design with push-to-open'',
        ''Simple flat doors with sleek pulls''])"
proof -
  have h: "storageNeeds example_preferences \<notin> set Object_prototype_keys"
    by (simp add: example_preferences_def Object_prototype_keys_def)
  have c: "map (getCabinetStyle (kitchenStyle example_preferences)) [Primary, Enhanced, Value] =
       [''Ultra-flat doors with minimal linear hardware'',
        ''Integrated handle-less design with push-to-open'',
        ''Simple flat doors with sleek pulls'']"
    by (simp add: example_preferences_def getCabinetStyle_def js_get_def styles_def by_tier_def
        or_else_def)
  show ?thesis
    using h createDesignVariations_tiers[OF h] unfolding c by blast
qed

subsection \<open>ImagePromptComposer\<close>

lemma style_step:
  "(if style = ''contemporary'' then
      prompt @ ''Clean lines, flat-panel cabinets, minimalist design with sleek hardware and modern appliances. ''
    else if style = ''traditional'' then
      prompt @ ''Classic raised-panel cabinets, elegant details, timeless design with traditional hardware and warm finishes. ''
    else if style = ''transitional'' then
      prompt @ ''Shaker-style cabinets blending traditional and modern elements with versatile hardware. ''
    else if style = ''modern'' then
      prompt @ ''Ultra-modern design with handleless cabinets, cutting-edge features, and minimalist aesthetics. ''
    else if style = ''farmhouse'' then
      prompt @ ''Rustic farmhouse charm with beadboard details, vintage-inspired elements, and cozy warmth. ''
    else if style = ''scandinavian'' then
      prompt @ ''Light wood tones, natural materials, bright and airy Scandinavian design with clean lines. ''
    else if style = ''industrial'' then
      prompt @ ''Industrial aesthetic with metal accents, urban design elements, and modern functionality. ''
    else prompt) = prompt @ style_clause style"
  by (simp add: style_clause_def style_clauses_def)

lemma cooking_step:
  "(if includes_str cooking ''entertainer'' then
      (if includes_str cooking ''daily'' \<or> includes_str cooking ''frequent'' then
         prompt @ ''Efficient work triangle layout with multiple prep areas and professional-grade workflow. ''
       else prompt) @ ''Open layout perfect for entertaining with large island and social cooking areas. ''
    else
      (if includes_str cooking ''daily'' \<or> includes_str cooking ''frequent'' then
         prompt @ ''Efficient work triangle layout with multiple prep areas and professional-grade workflow. ''
       else prompt)) = prompt @ cooking_clauses cooking"
  by (simp add: cooking_clauses_def)

lemma family_step:
  "(if includes_str family ''large'' then
      prompt @ ''Spacious design accommodating large family needs with ample storage and workspace. ''
    else prompt) = prompt @ family_clause family"
  by (simp add: family_clause_def)

lemma createImagePrompt_clauses:
  assumes "storageFeatures d = JArr items"
  shows "createImagePrompt d p img =
     Inr (base_sentence (kitchenStyle p) @ style_clause (kitchenStyle p) @
          color_clause (colorPalette d) @ cooking_clauses (cookingHabits p) @
          family_clause (familySize p) @ technical_clause (cabinetStyle d) @
          storage_clause items @ calgary_clause @ closing_clause)"
  unfolding createImagePrompt_def Let_def assms jsval.case style_step cooking_step family_step
  unfolding base_sentence_def[symmetric] calgary_clause_def[symmetric] closing_clause_def[symmetric]
  by (simp only: color_clause_def technical_clause_def storage_clause_def append_assoc)

lemma createImagePrompt_returns:
  assumes "storageFeatures d = JArr items"
  shows "\<exists>prompt. createImagePrompt d p img = Inr prompt"
  using createImagePrompt_clauses[OF assms] by blast

lemma join_first_three:
  assumes "3 \<le> length items"
  shows "join sep (take 3 items) = items ! 0 @ sep @ items ! 1 @ sep @ items ! 2"
proof -
  obtain a b c rest where "items = a # b # c # rest"
    using assms by (auto simp: numeral_3_eq_3 Suc_le_length_iff)
  then show ?thesis by simp
qed

text \<open>
  C6. For every design whose storage features are a list of at least three items, the
  prompt holds the storage clause made of the first three items joined by a comma and a
  space. What stands before the clause does not read the storage features and what
  stands after it is fixed, so no further item reaches the prompt.
\<close>

theorem createImagePrompt_storage_clause:
  assumes "storageFeatures d = JArr items" and "3 \<le> length items"
  shows "createImagePrompt d p img =
     Inr (clauses_before_storage p (colorPalette d) (cabinetStyle d) @
          ''Storage features: '' @ items ! 0 @ '', '' @ items ! 1 @ '', '' @ items ! 2 @ ''. '' @
          calgary_clause @ closing_clause)"
  unfolding createImagePrompt_clauses[OF assms(1)] clauses_before_storage_def storage_clause_def
    join_first_three[OF assms(2)]
  by (simp only: append_assoc)

theorem createImagePrompt_storage_clause_witness:
  "storageFeatures example_design = JArr [''one'', ''two'', ''three'', ''four'', ''five''] \<and>
   3 \<le> length [''one'', ''two'', ''three'', ''four'', ''five''] \<and>
   createImagePrompt example_design example_preferences [] =
     Inr (clauses_before_storage example_preferences
            ''White uppers with gray lowers and coordinated hardware''
            ''Ultra-flat doors with minimal linear hardware'' @
          ''Storage features: one, two, three. '' @ calgary_clause @ closing_clause)"
proof -
  have s: "storageFeatures example_design = JArr [''one'', ''two'', ''three'', ''four'', ''five'']"
    by (simp add: example_design_def)
  have l: "3 \<le> length [''one'', ''two'', ''three'', ''four'', ''five'']"
    by simp
  have c: "colorPalette example_design = ''White uppers with gray lowers and coordinated hardware''"
    "cabinetStyle example_design = ''Ultra-flat doors with minimal linear hardware''"
    by (simp_all add: example_design_def)
  show ?thesis
    using s l createImagePrompt_storage_clause[OF s l, of example_preferences "[]"]
    unfolding c by simp
qed

text \<open>
  C7, as the specification lists the clauses: the prompt would end with the storage
  clause followed by the closing clause. It does not; the code puts a clause about
  Calgary homes between the two.
\<close>

theorem createImagePrompt_not_listed_prompt:
  "createImagePrompt example_design example_preferences [] \<noteq>
     Inr (listed_prompt example_preferences example_design
            [''one'', ''two'', ''three'', ''four'', ''five''])"
proof -
  have s: "storageFeatures example_design = JArr [''one'', ''two'', ''three'', ''four'', ''five'']"
    by (simp add: example_design_def)
  have "calgary_clause \<noteq> []"
    by (simp add: calgary_clause_def)
  then show ?thesis
    unfolding createImagePrompt_clauses[OF s] listed_prompt_def clauses_before_storage_def
    by simp
qed

text \<open>
  C7, amended. For every design whose storage features are a list, the prompt is the
  concatenation, in this order, of the base sentence naming the style, the clause of the
  style (one of seven by exact match, none for another style), the colour clause with the
  design's palette, the cooking clauses, the family clause, the technical clause with the
  design's cabinet style, the storage clause, the fixed clause about Calgary homes, and
  the fixed closing clause.
\<close>

theorem createImagePrompt_clause_order:
  assumes "storageFeatures d = JArr items"
  shows "createImagePrompt d p img =
     Inr (concat
       [base_sentence (kitchenStyle p),
        style_clause (kitchenStyle p),
        color_clause (colorPalette d),
        cooking_clauses (cookingHabits p),
        family_clause (familySize p),
        technical_clause (cabinetStyle d),
        storage_clause items,
        calgary_clause,
        closing_clause])"
  unfolding createImagePrompt_clauses[OF assms] by simp

theorem createImagePrompt_clause_order_witness:
  "storageFeatures example_design = JArr [''one'', ''two'', ''three'', ''four'', ''five''] \<and>
   createImagePrompt example_design example_preferences [] =
     Inr (''A stunning, photorealistic 3D rendering of a modern kitchen design for Urban Woodspace Calgary. '' @
          ''Ultra-modern design with handleless cabinets, cutting-edge features, and minimalist aesthetics. '' @
          ''Color scheme: White uppers with gray lowers and coordinated hardware. '' @
          ''Efficient work triangle layout with multiple prep areas and professional-grade workflow. '' @
          ''Spacious design accommodating large family needs with ample storage and workspace. '' @
          ''Ultra-flat doors with minimal linear hardware. Premium quartz countertops, under-cabinet LED lighting, high-end stainless steel appliances. '' @
          ''Storage features: one, two, three. '' @
          ''Designed for Calgary homes with practical storage for winter gear and seasonal items. '' @
          ''Professional architectural photography style, perfect natural lighting, 4K quality, hyperrealistic rendering. The kitchen should look like a high-end interior design magazine photo with perfect staging, warm lighting, and inviting atmosphere. Show the space as lived-in and welcoming for a Calgary family.'')"
proof -
  have s: "storageFeatures example_design = JArr [''one'', ''two'', ''three'', ''four'', ''five'']"
    by (simp add: example_design_def)
  have 1: "base_sentence (kitchenStyle example_preferences) =
      ''A stunning, photorealistic 3D rendering of a modern kitchen design for Urban Woodspace Calgary. ''"
    by (simp add: base_sentence_def example_preferences_def)
  have 2: "style_clause (kitchenStyle example_preferences) =
      ''Ultra-modern design with handleless cabinets, cutting-edge features, and minimalist aesthetics. ''"
    by (simp add: style_clause_def style_clauses_def example_preferences_def)
  have 3: "color_clause (colorPalette example_design) =
      ''Color scheme: White uppers with gray lowers and coordinated hardware. ''"
    by (simp add: color_clause_def example_design_def)
  have 4: "cooking_clauses (cookingHabits example_preferences) =
      ''Efficient work triangle layout with multiple prep areas and professional-grade workflow. ''"
    by (simp add: cooking_clauses_def example_preferences_def)
  have 5: "family_clause (familySize example_preferences) =
      ''Spacious design accommodating large family needs with ample storage and workspace. ''"
    by (simp add: family_clause_def example_preferences_def)
  have 6: "technical_clause (cabinetStyle example_design) =
      ''Ultra-flat doors with minimal linear hardware. Premium quartz countertops, under-cabinet LED lighting, high-end stainless steel appliances. ''"
    by (simp add: technical_clause_def example_design_def)
  have 7: "storage_clause [''one'', ''two'', ''three'', ''four'', ''five''] =
      ''Storage features: one, two, three. ''"
    by (simp add: storage_clause_def)
  show ?thesis
    using s createImagePrompt_clause_order[OF s, of example_preferences "[]"]
    unfolding 1 2 3 4 5 6 7 calgary_clause_def closing_clause_def
    by (simp only: concat.simps append_Nil2 append_assoc simp_thms)
qed

subsection \<open>AnalysisExtractor\<close>

lemma includes_str_sublist: "includes_str hay needle = sublist needle hay"
  by (induction hay) (simp_all add: sublist_Cons_right)

lemma split_lines_not_Nil: "split_lines t \<noteq> []"
  by (induction t) (simp_all split: list.splits)

lemma split_lines_first_prefix: "split_lines t = h # rest \<Longrightarrow> prefix h t"
proof (induction t arbitrary: h rest)
  case Nil
  then show ?case by simp
next
  case (Cons c cs)
  then show ?case by (auto split: if_splits list.splits)
qed

lemma split_lines_sublist: "l \<in> set (split_lines t) \<Longrightarrow> sublist l t"
proof (induction t arbitrary: l)
  case Nil
  then show ?case by simp
next
  case (Cons c cs)
  show ?case
  proof (cases "c = CHR 0x0A")
    case True
    with Cons.prems have "l = [] \<or> l \<in> set (split_lines cs)" by simp
    then show ?thesis
      using Cons.IH by (auto simp: sublist_Cons_right)
  next
    case False
    obtain h rest where sp: "split_lines cs = h # rest"
      using split_lines_not_Nil by (cases "split_lines cs") auto
    with False Cons.prems have "l = c # h \<or> l \<in> set rest" by simp
    then show ?thesis
    proof
      assume l: "l = c # h"
      have "prefix h cs" using sp by (rule split_lines_first_prefix)
      then have "prefix (c # h) (c # cs)" by simp
      then show ?thesis using l by (simp add: sublist_Cons_right)
    next
      assume "l \<in> set rest"
      then have "sublist l cs" using Cons.IH sp by simp
      then show ?thesis by (simp add: sublist_Cons_right)
    qed
  qed
qed

lemma line_includes:
  assumes "l \<in> set (split_lines t)" and "includes_str l k"
  shows "includes_str t k"
  using assms split_lines_sublist sublist_order.order_trans
  unfolding includes_str_sublist by blast

lemma no_keyword_text:
  assumes "\<not> mentions_keyword text" and "k \<in> set recognized_keywords"
  shows "includes_str (toLowerCase text) k = False"
  using assms by (auto simp: mentions_keyword_def list_ex_iff)

lemma no_keyword_line:
  assumes "\<not> mentions_keyword text"
    and "l \<in> set (split_lines (toLowerCase text))"
    and "k \<in> set recognized_keywords"
  shows "includes_str l k = False"
  using no_keyword_text[OF assms(1,3)] line_includes[OF assms(2)] by blast

lemma extractFromAnalysis_none:
  assumes "\<not> mentions_keyword text"
  shows "extractFromAnalysis text type = None"
proof -
  have no: "includes_str l k = False"
    if "l \<in> set (split_lines (toLowerCase text))"
      and "k \<in> set [''dimension'', ''size'', ''feet'', [CHR 0x27], ''x'', ''layout'', ''galley'',
                     ''l-shaped'', ''u-shaped'', ''island'', ''light'', ''window'', ''bright'']"
    for l k
  proof -
    from that(2) have "k \<in> set recognized_keywords"
      unfolding recognized_keywords_def by auto
    with assms that(1) show ?thesis by (rule no_keyword_line)
  qed
  have dims: "find (\<lambda>line. includes_str line ''dimension'' \<or> includes_str line ''size'' \<or>
        includes_str line ''feet'' \<or> includes_str line [CHR 0x27] \<or> includes_str line ''x'')
      (split_lines (toLowerCase text)) = None"
    by (simp add: find_None_iff no del: includes_str.simps)
  have layout: "find (\<lambda>line. includes_str line ''layout'' \<or> includes_str line ''galley'' \<or>
        includes_str line ''l-shaped'' \<or> includes_str line ''u-shaped'' \<or>
        includes_str line ''island'')
      (split_lines (toLowerCase text)) = None"
    by (simp add: find_None_iff no del: includes_str.simps)
  have lighting: "find (\<lambda>line. includes_str line ''light'' \<or> includes_str line ''window'' \<or>
        includes_str line ''bright'')
      (split_lines (toLowerCase text)) = None"
    by (simp add: find_None_iff no del: includes_str.simps)
  show ?thesis
    unfolding extractFromAnalysis_def Let_def dims layout lighting
    by (simp add: found_line_def)
qed

lemma extraction_lists_default:
  assumes "\<not> mentions_keyword text"
  shows "extractFeatures text =
           [''Natural lighting'', ''Standard ceiling height'', ''Existing flooring'']"
    and "extractChallenges text =
           [''Space optimization needed'', ''Storage improvements'', ''Lighting updates'']"
    and "extractRecommendedStyles text = [''Contemporary'', ''Traditional'', ''Transitional'']"
proof -
  have no: "includes_str (toLowerCase text) k = False"
    if "k \<in> set [''window'', ''ceiling'', ''floor'', ''door'', ''small'', ''limited'', ''old'',
                   ''dated'', ''storage'', ''light'', ''modern'', ''contemporary'', ''traditional'',
                   ''classic'', ''transitional'', ''farmhouse'', ''rustic'']" for k
  proof -
    from that have "k \<in> set recognized_keywords"
      unfolding recognized_keywords_def by auto
    with assms show ?thesis by (rule no_keyword_text)
  qed
  show "extractFeatures text =
          [''Natural lighting'', ''Standard ceiling height'', ''Existing flooring'']"
    by (simp add: extractFeatures_def no)
  show "extractChallenges text =
          [''Space optimization needed'', ''Storage improvements'', ''Lighting updates'']"
    by (simp add: extractChallenges_def no)
  show "extractRecommendedStyles text = [''Contemporary'', ''Traditional'', ''Transitional'']"
    by (simp add: extractRecommendedStyles_def no)
qed

lemma default_analysis_populated: "all_fields_populated default_analysis"
  by (simp add: all_fields_populated_def default_analysis_def)

text \<open>
  C8. For every text that holds none of the recognized keywords, every field of the
  analysis is its fixed default, and none of them is empty. The extraction is a function
  of the text alone, so applying it again to the same text gives the same analysis.
\<close>

theorem spaceAnalysis_defaults:
  assumes "\<not> mentions_keyword text"
  shows "spaceAnalysis text = default_analysis \<and> all_fields_populated (spaceAnalysis text)"
proof -
  have "spaceAnalysis text = default_analysis"
    unfolding spaceAnalysis_def default_analysis_def extraction_lists_default[OF assms]
      extractFromAnalysis_none[OF assms]
    by (simp add: or_default_def extractOpportunities_def extractArchitectural_def
        extractOptimization_def)
  then show ?thesis
    using default_analysis_populated by simp
qed

theorem spaceAnalysis_defaults_witness:
  "\<not> mentions_keyword ''Analysis not available'' \<and>
   spaceAnalysis ''Analysis not available'' = default_analysis \<and>
   all_fields_populated (spaceAnalysis ''Analysis not available'')"
proof -
  have h: "\<not> mentions_keyword ''Analysis not available''"
    by (simp add: mentions_keyword_def recognized_keywords_def toLowerCase_def lower_char_def)
  show ?thesis
    using h spaceAnalysis_defaults[OF h] by blast
qed

subsection \<open>GenerationOrchestrator\<close>

lemma call_fails_iff:
  "call_fails synth p img c = isl (try_generate synth p img (fst c) (snd c))"
  by (simp add: call_fails_def synthesis_fails_def try_generate_def
      split: sum.splits synth_outcome.splits option.splits)

lemma generate_loop_designs:
  "fst (generate_loop synth p img i vs (ds, st)) =
     ds @ map (pushed_design synth p img) (enumerate i vs)"
  by (induction vs arbitrary: i ds st) (simp_all add: pushed_design_def split: sum.splits)

lemma generate_loop_failed:
  "imagesFailed (snd (generate_loop synth p img i vs (ds, st))) =
     imagesFailed st + length (filter (call_fails synth p img) (enumerate i vs))"
  by (induction vs arbitrary: i ds st) (simp_all add: call_fails_iff split: sum.splits)

lemma generate_loop_generated:
  "imagesGenerated (snd (generate_loop synth p img i vs (ds, st))) =
     imagesGenerated st + length (filter (\<lambda>c. \<not> call_fails synth p img c) (enumerate i vs))"
  by (induction vs arbitrary: i ds st) (simp_all add: call_fails_iff split: sum.splits)

lemma try_generate_fields:
  assumes "try_generate synth p img k v = Inr d"
  shows "\<exists>url prompt. url \<noteq> [] \<and> createImagePrompt v p img = Inr prompt \<and>
           synth k prompt = Responds (Some url) \<and>
           d = take 10 (failed_design p v) @
               [(''generatedImage'', JStr url), (''imagePrompt'', JStr prompt),
                (''imageStatus'', JStr ''success'')]"
  using assms
  by (auto simp: try_generate_def failed_design_def
      split: sum.splits synth_outcome.splits option.splits if_splits)


lemma failed_design_shared: "map fst (take 10 (failed_design p v)) = shared_fields"
  by (simp add: failed_design_def shared_fields_def)

lemma failed_design_status:
  "has_status ''failed'' (failed_design p v)" "\<not> has_status ''success'' (failed_design p v)"
  "no_image_fields (failed_design p v)"
  by (simp_all add: has_status_def no_image_fields_def failed_design_def)

lemma success_design_status:
  assumes "try_generate synth p img k v = Inr d"
  shows "has_status ''success'' d" "\<not> has_status ''failed'' d"
  using try_generate_fields[OF assms]
  by (auto simp: has_status_def failed_design_def)

lemma pushed_design_failed:
  "has_status ''failed'' (pushed_design synth p img c) = call_fails synth p img c"
  by (cases "try_generate synth p img (fst c) (snd c)")
     (simp_all add: pushed_design_def call_fails_iff failed_design_status success_design_status)

lemma pushed_design_success:
  "has_status ''success'' (pushed_design synth p img c) = (\<not> call_fails synth p img c)"
  by (cases "try_generate synth p img (fst c) (snd c)")
     (simp_all add: pushed_design_def call_fails_iff failed_design_status success_design_status)

lemma pushed_design_no_image:
  "has_status ''failed'' (pushed_design synth p img c) \<Longrightarrow>
   no_image_fields (pushed_design synth p img c)"
  by (cases "try_generate synth p img (fst c) (snd c)")
     (simp_all add: pushed_design_def failed_design_status success_design_status)

lemma pushed_design_styleName:
  "map_of (pushed_design synth p img c) ''styleName'' = Some (JStr (name (snd c)))"
  by (cases "try_generate synth p img (fst c) (snd c)")
     (auto simp: pushed_design_def failed_design_def dest!: try_generate_fields)

lemma generate_Inr:
  assumes "createDesignVariations p = Inr vs"
  shows "generate synth p img =
           Inr (generate_loop synth p img 0 vs ([], \<lparr>imagesGenerated = 0, imagesFailed = 0\<rparr>))"
  by (simp add: generate_def assms)

lemma generate_throws:
  assumes "storageNeeds p \<in> set Object_prototype_keys"
  shows "generate synth p img = Inl (TypeError ''baseFeatures is not iterable'')"
  by (simp add: generate_def createDesignVariations_throws[OF assms])

lemma stats_eq:
  "imagesGenerated st = g \<Longrightarrow> imagesFailed st = f \<Longrightarrow>
   st = \<lparr>imagesGenerated = g, imagesFailed = f\<rparr>"
  by (cases st) simp


text \<open>
  Whenever the builder returns variations, the orchestrator returns one design for each
  of them, in the order of the variations: the design at a position is the one pushed for
  the variation at that position and carries its name. The two counters of the statistics
  add up to the number of designs.
\<close>

lemma one_design_per_variation:
  assumes "createDesignVariations p = Inr vs"
  shows "\<exists>ds st. generate synth p img = Inr (ds, st) \<and>
     length ds = length vs \<and>
     ds = map (pushed_design synth p img) (enumerate 0 vs) \<and>
     map (\<lambda>d. map_of d ''styleName'') ds = map (\<lambda>v. Some (JStr (name v))) vs \<and>
     imagesGenerated st + imagesFailed st = length ds"
proof -
  let ?r = "generate_loop synth p img 0 vs ([], \<lparr>imagesGenerated = 0, imagesFailed = 0\<rparr>)"
  let ?calls = "enumerate 0 vs"
  have ds: "fst ?r = map (pushed_design synth p img) ?calls"
    using generate_loop_designs[of synth p img 0 vs "[]"] by simp
  have "map (\<lambda>d. map_of d ''styleName'') (fst ?r) =
      map (\<lambda>c. Some (JStr (name (snd c)))) ?calls"
    unfolding ds by (simp add: pushed_design_styleName comp_def)
  also have "\<dots> = map (\<lambda>v. Some (JStr (name v))) (map snd ?calls)"
    by (simp only: map_map comp_def)
  also have "\<dots> = map (\<lambda>v. Some (JStr (name v))) vs"
    by (simp only: map_snd_enumerate)
  finally have names:
    "map (\<lambda>d. map_of d ''styleName'') (fst ?r) = map (\<lambda>v. Some (JStr (name v))) vs" .
  have "imagesGenerated (snd ?r) + imagesFailed (snd ?r) =
      length (filter (\<lambda>c. \<not> call_fails synth p img c) ?calls) +
      length (filter (call_fails synth p img) ?calls)"
    by (simp add: generate_loop_generated generate_loop_failed)
  also have "\<dots> = length ?calls"
    using sum_length_filter_compl[of "call_fails synth p img" ?calls] by simp
  finally have sum: "imagesGenerated (snd ?r) + imagesFailed (snd ?r) = length (fst ?r)"
    by (simp add: ds)
  have "generate synth p img = Inr (fst ?r, snd ?r)"
    by (simp add: generate_Inr[OF assms])
  moreover have "length (fst ?r) = length vs"
    by (simp add: ds)
  ultimately show ?thesis
    using ds names sum by blast
qed

lemma one_design_per_variation_example:
  "\<exists>vs ds st. createDesignVariations example_preferences = Inr vs \<and>
     generate example_synthesis example_preferences [] = Inr (ds, st) \<and>
     length vs = 3 \<and> length ds = 3 \<and>
     map (\<lambda>d. map_of d ''styleName'') ds =
       [Some (JStr ''Custom Modern Design''), Some (JStr ''Premium Modern Collection''),
        Some (JStr ''Smart Modern Value'')] \<and>
     imagesGenerated st + imagesFailed st = 3"
proof -
  obtain vs where vs: "createDesignVariations example_preferences = Inr vs"
    using createDesignVariations_example by (elim exE)
  have cap: "capitalizeFirst (kitchenStyle example_preferences) = ''Modern''"
    by (simp add: example_preferences_def capitalizeFirst_def toUpperCase_def upper_char_def)
  have n: "map name vs =
      [''Custom Modern Design'', ''Premium Modern Collection'', ''Smart Modern Value'']"
    using createDesignVariations_Inr(3)[OF vs] unfolding cap by simp
  have l: "length vs = 3"
    using createDesignVariations_Inr(1)[OF vs] .
  from one_design_per_variation[OF vs, of example_synthesis "[]"] obtain ds st
    where g: "generate example_synthesis example_preferences [] = Inr (ds, st)"
      and "length ds = length vs"
      and "map (\<lambda>d. map_of d ''styleName'') ds = map (\<lambda>v. Some (JStr (name v))) vs"
      and "imagesGenerated st + imagesFailed st = length ds"
    by (elim exE conjE)
  then have "length ds = 3"
    and "map (\<lambda>d. map_of d ''styleName'') ds =
       [Some (JStr ''Custom Modern Design''), Some (JStr ''Premium Modern Collection''),
        Some (JStr ''Smart Modern Value'')]"
    and "imagesGenerated st + imagesFailed st = 3"
    using l n by (simp_all flip: map_map[of "\<lambda>x. Some (JStr x)" name, unfolded comp_def])
  with vs g l show ?thesis
    by (intro exI conjI)
qed

text \<open>
  C2. For every preferences value the orchestrator is to produce one design for each
  variation, in order, with statistics that add up to the number of designs. It does so
  whenever the builder returns (the lemma above). For the storage needs
  \<^verbatim>\<open>constructor\<close> it does not: the builder throws on the enhanced tier, outside the
  \<^verbatim>\<open>try\<close> of the loop, and the orchestrator produces neither designs nor statistics,
  whatever the capability answers.
\<close>

theorem generate_constructor:
  "generate synth (example_preferences\<lparr>storageNeeds := ''constructor''\<rparr>) img =
     Inl (TypeError ''baseFeatures is not iterable'')"
  by (rule generate_throws) (simp add: Object_prototype_keys_def)

text \<open>
  C1. In every run over the three variations in which the capability fails for exactly
  one of the calls, the orchestrator returns: there are three designs, exactly one has
  the status failed and it carries neither a generated image nor an image prompt, the
  other two have the status success, and the statistics count two generated images and
  one failed.
\<close>

theorem one_failure_is_isolated:
  assumes "createDesignVariations p = Inr vs"
    and "length (filter (call_fails synth p img) (enumerate 0 vs)) = 1"
  shows "\<exists>ds. generate synth p img = Inr (ds, \<lparr>imagesGenerated = 2, imagesFailed = 1\<rparr>) \<and>
     length ds = 3 \<and>
     length (filter (has_status ''failed'') ds) = 1 \<and>
     length (filter (has_status ''success'') ds) = 2 \<and>
     list_all no_image_fields (filter (has_status ''failed'') ds)"
proof -
  let ?r = "generate_loop synth p img 0 vs ([], \<lparr>imagesGenerated = 0, imagesFailed = 0\<rparr>)"
  let ?calls = "enumerate 0 vs"
  have len: "length ?calls = 3"
    using createDesignVariations_Inr[OF assms(1)] by simp
  have ok: "length (filter (\<lambda>c. \<not> call_fails synth p img c) ?calls) = 2"
    using sum_length_filter_compl[of "call_fails synth p img" ?calls] assms(2) len by simp
  have ds: "fst ?r = map (pushed_design synth p img) ?calls"
    using generate_loop_designs[of synth p img 0 vs "[]"] by simp
  have failed: "length (filter (has_status ''failed'') (fst ?r)) = 1"
    unfolding ds by (simp add: filter_map comp_def pushed_design_failed assms(2))
  have success: "length (filter (has_status ''success'') (fst ?r)) = 2"
    unfolding ds by (simp add: filter_map comp_def pushed_design_success ok)
  have bare: "list_all no_image_fields (filter (has_status ''failed'') (fst ?r))"
    unfolding ds by (auto simp: list_all_iff pushed_design_no_image)
  have stats: "snd ?r = \<lparr>imagesGenerated = 2, imagesFailed = 1\<rparr>"
    by (rule stats_eq) (simp_all add: generate_loop_generated generate_loop_failed assms(2) ok)
  have "generate synth p img = Inr (fst ?r, \<lparr>imagesGenerated = 2, imagesFailed = 1\<rparr>)"
    using generate_Inr[OF assms(1), of synth img] stats by (metis prod.collapse)
  moreover have "length (fst ?r) = 3"
    using len by (simp add: ds)
  ultimately show ?thesis
    using failed success bare by blast
qed

lemma call_fails_example:
  assumes "storageFeatures v = JArr items"
  shows "call_fails example_synthesis p img (k, v) = (k = 1)"
proof -
  obtain prompt where "createImagePrompt v p img = Inr prompt"
    using createImagePrompt_returns[OF assms, of p img] by (elim exE)
  then show ?thesis
    by (simp add: call_fails_def synthesis_fails_def example_synthesis_def)
qed

theorem one_failure_is_isolated_witness:
  "\<exists>vs ds. createDesignVariations example_preferences = Inr vs \<and>
     length (filter (call_fails example_synthesis example_preferences []) (enumerate 0 vs)) = 1 \<and>
     generate example_synthesis example_preferences [] =
       Inr (ds, \<lparr>imagesGenerated = 2, imagesFailed = 1\<rparr>) \<and>
     length ds = 3 \<and>
     length (filter (has_status ''failed'') ds) = 1 \<and>
     length (filter (has_status ''success'') ds) = 2 \<and>
     list_all no_image_fields (filter (has_status ''failed'') ds)"
proof -
  obtain vs where vs: "createDesignVariations example_preferences = Inr vs"
    using createDesignVariations_example by (elim exE)
  obtain v1 v2 v3 where three: "vs = [v1, v2, v3]"
    using createDesignVariations_Inr(1)[OF vs]
    by (auto simp: numeral_3_eq_3 length_Suc_conv)
  obtain i1 i2 i3 where arrays: "storageFeatures v1 = JArr i1" "storageFeatures v2 = JArr i2"
      "storageFeatures v3 = JArr i3"
    using createDesignVariations_Inr(2)[OF vs] unfolding three by auto
  have one: "length (filter (call_fails example_synthesis example_preferences [])
      (enumerate 0 vs)) = 1"
    unfolding three
    by (simp add: call_fails_example[OF arrays(1)] call_fails_example[OF arrays(2)]
        call_fails_example[OF arrays(3)])
  from one_failure_is_isolated[OF vs one] obtain ds
    where "generate example_synthesis example_preferences [] =
       Inr (ds, \<lparr>imagesGenerated = 2, imagesFailed = 1\<rparr>)"
      and "length ds = 3"
      and "length (filter (has_status ''failed'') ds) = 1"
      and "length (filter (has_status ''success'') ds) = 2"
      and "list_all no_image_fields (filter (has_status ''failed'') ds)"
    by (elim exE conjE)
  with vs one show ?thesis
    by (intro exI conjI)
qed


end
